theory Spec2Isabelle
  imports Complex_Main
begin

section \<open>The news classification service of the ONNX GPU serving notebook\<close>

text \<open>
  The notebook writes one module, \<^verbatim>\<open>bento_svc.py\<close>, with two helper functions
  (\<^verbatim>\<open>get_pipeline\<close>, \<^verbatim>\<open>to_numpy\<close>) and the class \<^verbatim>\<open>OnnxService\<close> with the methods
  \<^verbatim>\<open>__init__\<close>, \<^verbatim>\<open>classify_categories\<close> and \<^verbatim>\<open>predict\<close>. The tokenizer, the vocabulary
  and the inference session are packed artifacts: they are parameters of the model. Every
  \<^verbatim>\<open>raise\<close> is a value \<open>Inl e\<close>, every \<^verbatim>\<open>print\<close> is a line of an output list, and a
  method returns the object it was called on next to its output and its result.
\<close>

subsection \<open>Python values and exceptions\<close>

text \<open>
  The exception classes that the module can meet. \<open>RuntimeError\<close> stands for every
  instance of Python's \<^verbatim>\<open>RuntimeError\<close> (its subclasses included), \<open>InvalidArgument\<close>
  for the class of that name of the ONNX runtime, and \<open>OtherError\<close> for an instance of
  any class that is none of the others (the runtime's \<^verbatim>\<open>Fail\<close>, for example).
\<close>

datatype pyexc =
    RuntimeError
  | InvalidArgument
  | AttributeError
  | KeyError
  | IndexError
  | ValueError
  | TypeError
  | OtherError string

text \<open>
  What the JSON adapter hands to \<^verbatim>\<open>predict\<close>: a parsed JSON document. A dictionary is
  the list of its items; \<^verbatim>\<open>d.get(k)\<close> reads it with \<open>map_of\<close>.
\<close>

datatype pyval =
    PNone
  | PBool bool
  | PInt int
  | PFloat rat
  | PStr string
  | PList "pyval list"
  | PDict "(string \<times> pyval) list"

text \<open>\<^verbatim>\<open>parsed_json.get(key)\<close>: \<^verbatim>\<open>None\<close> for a missing key; only a dictionary has \<^verbatim>\<open>get\<close>.\<close>

fun py_get :: "pyval \<Rightarrow> string \<Rightarrow> pyexc + pyval" where
  "py_get (PDict kvs) key = Inr (case map_of kvs key of None \<Rightarrow> PNone | Some v \<Rightarrow> v)"
| "py_get _ key = Inl AttributeError"

text \<open>\<^verbatim>\<open>xs[0]\<close> on a list.\<close>

fun first :: "'a list \<Rightarrow> pyexc + 'a" where
  "first [] = Inl IndexError"
| "first (x # _) = Inr x"

text \<open>\<^verbatim>\<open>d[k]\<close> on a dictionary.\<close>

definition getitem :: "('k \<rightharpoonup> 'v) \<Rightarrow> 'k \<Rightarrow> pyexc + 'v" where
  "getitem d k = (case d k of None \<Rightarrow> Inl KeyError | Some v \<Rightarrow> Inr v)"

subsection \<open>Tensors and arrays\<close>

text \<open>
  A tensor carries its data, its element type, its layout, the flag \<^verbatim>\<open>requires_grad\<close>
  and the device it lives on. The data are a parameter: \<^verbatim>\<open>to_numpy\<close> never looks inside
  them.
\<close>

datatype device_t = CPU | CUDA nat

datatype dtype_t =
    UInt8 | Int8 | Int16 | Int32 | Int64
  | Float16 | Float32 | Float64 | BFloat16
  | Complex64 | Complex128
  | Bool
  | QInt8 | QUInt8 | QInt32

datatype layout_t = Strided | SparseCoo

record 'd tensor =
  tdata :: 'd
  tdtype :: dtype_t
  tlayout :: layout_t
  requires_grad :: bool
  tdevice :: device_t

text \<open>\<^verbatim>\<open>torch.device("cuda:0" if torch.cuda.is_available() else "cpu")\<close>\<close>

definition device :: "bool \<Rightarrow> device_t" where
  "device cuda_is_available = (if cuda_is_available then CUDA 0 else CPU)"

text \<open>
  \<^verbatim>\<open>torch.tensor(data)\<close> on a list of Python integers: a new strided tensor on the CPU
  that does not require gradients, of 64-bit integers, or of the default type
  \<^verbatim>\<open>float32\<close> when the list is empty.
\<close>

definition torch_tensor :: "int list \<Rightarrow> int list tensor" where
  "torch_tensor d =
     \<lparr>tdata = d, tdtype = (if d = [] then Float32 else Int64), tlayout = Strided,
      requires_grad = False, tdevice = CPU\<rparr>"

text \<open>\<^verbatim>\<open>t.to(device)\<close>, \<^verbatim>\<open>t.detach()\<close>, \<^verbatim>\<open>t.cpu()\<close> and \<^verbatim>\<open>t.clone()\<close>. A clone has the
  data, the type, the layout, the device and the gradient flag of its source.\<close>

definition to_device :: "'d tensor \<Rightarrow> device_t \<Rightarrow> 'd tensor" where
  "to_device t dev = t\<lparr>tdevice := dev\<rparr>"

definition detach :: "'d tensor \<Rightarrow> 'd tensor" where
  "detach t = t\<lparr>requires_grad := False\<rparr>"

definition cpu :: "'d tensor \<Rightarrow> 'd tensor" where
  "cpu t = t\<lparr>tdevice := CPU\<rparr>"

definition clone :: "'d tensor \<Rightarrow> 'd tensor" where
  "clone t = t"

text \<open>The element types that numpy has: all but \<^verbatim>\<open>bfloat16\<close> and the quantized types.\<close>

fun has_numpy_dtype :: "dtype_t \<Rightarrow> bool" where
  "has_numpy_dtype BFloat16 = False"
| "has_numpy_dtype QInt8 = False"
| "has_numpy_dtype QUInt8 = False"
| "has_numpy_dtype QInt32 = False"
| "has_numpy_dtype _ = True"

text \<open>
  \<^verbatim>\<open>t.numpy()\<close>, with the checks of torch in their order: \<^verbatim>\<open>TypeError\<close> on a tensor
  that is not on the CPU, \<^verbatim>\<open>TypeError\<close> on a tensor that is not strided,
  \<^verbatim>\<open>RuntimeError\<close> on a tensor that requires gradients (gradient mode is on: the module
  never switches it off), \<^verbatim>\<open>TypeError\<close> on an element type that numpy does not have;
  otherwise the array has the data of the tensor.
\<close>

definition numpy :: "'d tensor \<Rightarrow> pyexc + 'd" where
  "numpy t =
     (if tdevice t = CPU then
        if tlayout t = Strided then
          if requires_grad t then Inl RuntimeError
          else if has_numpy_dtype (tdtype t) then Inr (tdata t)
          else Inl TypeError
        else Inl TypeError
      else Inl TypeError)"

text \<open>
  \<^verbatim>\<open>
  def to_numpy(tensor):
      return tensor.detach().cpu().clone().numpy() if tensor.requires_grad else tensor.cpu().clone().numpy()
  \<close>
\<close>

definition to_numpy :: "'d tensor \<Rightarrow> pyexc + 'd" where
  "to_numpy t =
     (if requires_grad t then numpy (clone (cpu (detach t)))
      else numpy (clone (cpu t)))"

text \<open>The shape of a one-dimensional array.\<close>

definition shape :: "int list \<Rightarrow> nat list" where
  "shape a = [length a]"

subsection \<open>The output of the session: \<^verbatim>\<open>argmax(1)\<close> and \<^verbatim>\<open>item()\<close>\<close>

text \<open>
  An output of the session is a two-dimensional array, the list of its rows. numpy's
  \<^verbatim>\<open>argmax\<close> is the index of the first occurrence of the greatest element.
\<close>

fun argmax_from :: "'a::linorder \<Rightarrow> nat \<Rightarrow> nat \<Rightarrow> 'a list \<Rightarrow> nat" where
  "argmax_from best bi i [] = bi"
| "argmax_from best bi i (x # xs) =
     (if best < x then argmax_from x i (Suc i) xs else argmax_from best bi (Suc i) xs)"

fun argmax :: "'a::linorder list \<Rightarrow> nat" where
  "argmax [] = 0"
| "argmax (x # xs) = argmax_from x 0 1 xs"

text \<open>\<^verbatim>\<open>r.argmax(1)\<close>: one index for each row; \<^verbatim>\<open>ValueError\<close> when a row is empty.\<close>

definition argmax1 :: "'a::linorder list list \<Rightarrow> pyexc + nat list" where
  "argmax1 r = (if [] \<in> set r then Inl ValueError else Inr (map argmax r))"

text \<open>\<^verbatim>\<open>a.item()\<close>: the only element of an array of size one, \<^verbatim>\<open>ValueError\<close> otherwise.\<close>

fun item :: "nat list \<Rightarrow> pyexc + nat" where
  "item [i] = Inr i"
| "item _ = Inl ValueError"

subsection \<open>The artifacts\<close>

text \<open>
  The inference session of the ONNX runtime, as far as the service uses it: the names of
  its input and output nodes, its providers, and \<^verbatim>\<open>run(output_names, input_feed)\<close>,
  which returns the list of the requested outputs or raises.
\<close>

record 'a session =
  get_inputs :: "string list"
  get_outputs :: "string list"
  get_providers :: "string list"
  run :: "string list \<Rightarrow> (string \<times> int list) list \<Rightarrow> pyexc + 'a list list list"

text \<open>
  The tokenizer is the \<^verbatim>\<open>basic_english\<close> tokenizer of torchtext, a function on strings,
  and the vocabulary is torchtext's \<^verbatim>\<open>Vocab\<close>, whose \<^verbatim>\<open>vocab[token]\<close> is the index of
  the token, or the index of the unknown token.
\<close>

record 'a artifacts_t =
  model :: "'a session"
  tokenizer :: "string \<Rightarrow> string list"
  vocab :: "string \<Rightarrow> int"

text \<open>
  \<^verbatim>\<open>tokenizer(x)\<close>: the tokenizer starts with \<^verbatim>\<open>line.lower()\<close>, which only a string has.
\<close>

fun call_tokenizer :: "(string \<Rightarrow> string list) \<Rightarrow> pyval \<Rightarrow> pyexc + string list" where
  "call_tokenizer tok (PStr s) = Inr (tok s)"
| "call_tokenizer tok _ = Inl AttributeError"

subsection \<open>\<^verbatim>\<open>get_pipeline\<close>\<close>

text \<open>The lines that the module prints.\<close>

datatype out_line =
    SetupPipeline
  | Providers "string list"
  | ErrorWithShape "nat list" pyexc

text \<open>
  \<^verbatim>\<open>
  def get_pipeline(tokenizer, vocab):
      print('Setup pipeline...')
      text_pipeline = lambda x: [vocab[token] for token in tokenizer(x)]
      label_pipeline = lambda x: int(x) - 1
      return text_pipeline, label_pipeline
  \<close>
  The label pipeline is given on integer labels, where \<^verbatim>\<open>int(x)\<close> is \<open>x\<close>.
\<close>

definition text_pipeline ::
  "(string \<Rightarrow> string list) \<Rightarrow> (string \<Rightarrow> int) \<Rightarrow> pyval \<Rightarrow> pyexc + int list" where
  "text_pipeline tok voc x =
     (case call_tokenizer tok x of
        Inl e \<Rightarrow> Inl e
      | Inr tokens \<Rightarrow> Inr (map voc tokens))"

definition label_pipeline :: "int \<Rightarrow> int" where
  "label_pipeline x = x - 1"

definition get_pipeline ::
  "(string \<Rightarrow> string list) \<Rightarrow> (string \<Rightarrow> int) \<Rightarrow>
   out_line list \<times> (pyval \<Rightarrow> pyexc + int list) \<times> (int \<Rightarrow> int)" where
  "get_pipeline tok voc = ([SetupPipeline], text_pipeline tok voc, label_pipeline)"

subsection \<open>\<^verbatim>\<open>OnnxService\<close>\<close>

record 'a service =
  news_label :: "int option \<rightharpoonup> string"
  artifacts :: "'a artifacts_t"

text \<open>
  \<^verbatim>\<open>
  def __init__(self):
      super().__init__()
      self.news_label = {1: 'World', 2: 'Sports', 3: 'Business', 4: 'Sci/Tec'}
  \<close>
  The keys of the table are what \<^verbatim>\<open>classify_categories\<close> can return: an integer or
  \<^verbatim>\<open>None\<close>.
\<close>

definition OnnxService_init :: "'a service \<Rightarrow> 'a service" where
  "OnnxService_init self =
     self\<lparr>news_label :=
       [Some 1 \<mapsto> ''World'', Some 2 \<mapsto> ''Sports'', Some 3 \<mapsto> ''Business'',
        Some 4 \<mapsto> ''Sci/Tec'']\<rparr>"

text \<open>
  The body of the \<^verbatim>\<open>try\<close> statement:
  \<^verbatim>\<open>
  r = self.artifacts.model.run([output_name], onnx_inputs)[0]
  return r.argmax(1).item() + 1
  \<close>
\<close>

definition try_body ::
  "'a::linorder session \<Rightarrow> string \<Rightarrow> (string \<times> int list) list \<Rightarrow> pyexc + int" where
  "try_body sess output_name onnx_inputs =
     (case run sess [output_name] onnx_inputs of
        Inl e \<Rightarrow> Inl e
      | Inr outs \<Rightarrow>
          (case first outs of
             Inl e \<Rightarrow> Inl e
           | Inr r \<Rightarrow>
               (case argmax1 r of
                  Inl e \<Rightarrow> Inl e
                | Inr a \<Rightarrow>
                    (case item a of
                       Inl e \<Rightarrow> Inl e
                     | Inr i \<Rightarrow> Inr (int i + 1)))))"

text \<open>\<^verbatim>\<open>except (RuntimeError, InvalidArgument) as e\<close>\<close>

definition caught :: "pyexc \<Rightarrow> bool" where
  "caught e = (e = RuntimeError \<or> e = InvalidArgument)"

text \<open>
  \<^verbatim>\<open>
  def classify_categories(self, sentence):
      text_pipeline, _ = get_pipeline(self.artifacts.tokenizer, self.artifacts.vocab)
      text = to_numpy(torch.tensor(text_pipeline(sentence)).to(device))
      tensor_name = self.artifacts.model.get_inputs()[0].name
      output_name = self.artifacts.model.get_outputs()[0].name
      onnx_inputs = {tensor_name: text}
      print(f'providers: {self.artifacts.model.get_providers()}')

      try:
          r = self.artifacts.model.run([output_name], onnx_inputs)[0]
          return r.argmax(1).item() + 1
      except (RuntimeError, InvalidArgument) as e:
          print(f"ERROR with shape: {onnx_inputs[tensor_name].shape} - {e}")
  \<close>
  The first argument says whether CUDA is available, which fixes the module's \<^verbatim>\<open>device\<close>.
  A method that falls off its end returns \<^verbatim>\<open>None\<close>.
\<close>

definition classify_categories ::
  "bool \<Rightarrow> 'a::linorder service \<Rightarrow> pyval \<Rightarrow>
   'a service \<times> out_line list \<times> (pyexc + int option)" where
  "classify_categories cuda self sentence =
     (case get_pipeline (tokenizer (artifacts self)) (vocab (artifacts self)) of
        (out0, text_pipeline', _) \<Rightarrow>
     (case text_pipeline' sentence of
        Inl e \<Rightarrow> (self, out0, Inl e)
      | Inr ids \<Rightarrow>
     (case to_numpy (to_device (torch_tensor ids) (device cuda)) of
        Inl e \<Rightarrow> (self, out0, Inl e)
      | Inr text \<Rightarrow>
     (case first (get_inputs (model (artifacts self))) of
        Inl e \<Rightarrow> (self, out0, Inl e)
      | Inr tensor_name \<Rightarrow>
     (case first (get_outputs (model (artifacts self))) of
        Inl e \<Rightarrow> (self, out0, Inl e)
      | Inr output_name \<Rightarrow>
     (let onnx_inputs = [(tensor_name, text)];
          out1 = out0 @ [Providers (get_providers (model (artifacts self)))]
      in case try_body (model (artifacts self)) output_name onnx_inputs of
           Inr k \<Rightarrow> (self, out1, Inr (Some k))
         | Inl e \<Rightarrow>
             if caught e then (self, out1 @ [ErrorWithShape (shape text) e], Inr None)
             else (self, out1, Inl e)))))))"

text \<open>
  \<^verbatim>\<open>
  @api(input=JsonInput(), output=JsonOutput())
  def predict(self, parsed_json):
      sentence = parsed_json.get('text')
      return {'categories': self.news_label[self.classify_categories(sentence)]}
  \<close>
\<close>

definition predict ::
  "bool \<Rightarrow> 'a::linorder service \<Rightarrow> pyval \<Rightarrow> 'a service \<times> out_line list \<times> (pyexc + pyval)" where
  "predict cuda self parsed_json =
     (case py_get parsed_json ''text'' of
        Inl e \<Rightarrow> (self, [], Inl e)
      | Inr sentence \<Rightarrow>
     (case classify_categories cuda self sentence of
        (self', out, Inl e) \<Rightarrow> (self', out, Inl e)
      | (self', out, Inr k) \<Rightarrow>
     (case getitem (news_label self') k of
        Inl e \<Rightarrow> (self', out, Inl e)
      | Inr label \<Rightarrow> (self', out, Inr (PDict [(''categories'', PStr label)])))))"

subsection \<open>The notebook as a script\<close>

text \<open>
  The code cells of the notebook, in document order, each with its recorded execution
  count and the calls it makes, in the order of its lines. Markdown cells make no call
  and are left out; the last code cell is empty.
\<close>

datatype nb_call =
    ReloadAutoreload
  | PipInstall
  | CopyModelDir
  | ImportLibraries
  | DefineModelAndHelpers
  | WriteServiceModule
  | ImportOnnxService
  | GetTokenizerVocab
  | GetModelParams
  | InstantiateModel
  | LoadStateDict
  | ModelEval
  | MakeDummyInput
  | OnnxExport
  | OnnxLoad
  | CheckModel
  | NewOnnxService
  | Pack string
  | Save
  | BentomlServe string
  | NvidiaSmi
  | BentomlContainerize
  | DockerRun

definition notebook :: "(nat option \<times> nb_call list) list" where
  "notebook =
    [(Some 1, [ReloadAutoreload]),
     (Some 2, [PipInstall]),
     (Some 3, [CopyModelDir]),
     (Some 4, [ImportLibraries]),
     (Some 5, [DefineModelAndHelpers]),
     (Some 6, [WriteServiceModule]),
     (Some 7, [ImportOnnxService, GetTokenizerVocab, GetModelParams, InstantiateModel,
               LoadStateDict, ModelEval, MakeDummyInput, OnnxExport]),
     (Some 8, [OnnxLoad, CheckModel, NewOnnxService, Pack ''model'', Pack ''tokenizer'',
               Pack ''vocab'', Save]),
     (Some 9, [BentomlServe ''OnnxService:latest'']),
     (Some 10, [NvidiaSmi]),
     (None, [BentomlServe ''PyTorchFashionClassifier:latest --run-with-ngrok'']),
     (Some 11, [BentomlContainerize]),
     (Some 12, [DockerRun]),
     (None, [])]"

text \<open>The calls of the notebook when its cells run from top to bottom.\<close>

definition script :: "nb_call list" where
  "script = concat (map snd notebook)"

text \<open>\<open>before a b xs\<close>: \<open>a\<close> occurs in \<open>xs\<close>, and \<open>b\<close> occurs, and only after it.\<close>

fun before :: "'a \<Rightarrow> 'a \<Rightarrow> 'a list \<Rightarrow> bool" where
  "before a b [] = False"
| "before a b (x # xs) =
     (if x = b then False else if x = a then b \<in> set xs else before a b xs)"

text \<open>\<open>chain cs xs\<close>: the calls \<open>cs\<close> occur in \<open>xs\<close> one before the other, in this order.\<close>

fun chain :: "'a list \<Rightarrow> 'a list \<Rightarrow> bool" where
  "chain (a # b # cs) xs = (before a b xs \<and> chain (b # cs) xs)"
| "chain _ xs = True"

subsection \<open>A concrete service\<close>

text \<open>
  A small instance of the artifacts, to run the service on: a tokenizer that splits at
  spaces, a vocabulary of two words, and a session with one input and one output that
  rejects an empty array, as the exported graph does (it wants 64-bit integers, and
  \<^verbatim>\<open>torch.tensor([])\<close> is an array of floats), and otherwise returns one row of four
  scores.
\<close>

fun split_spaces :: "string \<Rightarrow> string \<Rightarrow> string list" where
  "split_spaces acc [] = (if acc = [] then [] else [rev acc])"
| "split_spaces acc (c # cs) =
     (if c = CHR '' ''
      then (if acc = [] then split_spaces [] cs else rev acc # split_spaces [] cs)
      else split_spaces (c # acc) cs)"

definition demo_tokenizer :: "string \<Rightarrow> string list" where
  "demo_tokenizer s = split_spaces [] s"

definition demo_vocab :: "string \<Rightarrow> int" where
  "demo_vocab w = (if w = ''goal'' then 2 else if w = ''stocks'' then 3 else 0)"

fun demo_run :: "string list \<Rightarrow> (string \<times> int list) list \<Rightarrow> pyexc + int list list list" where
  "demo_run names [(n, ids)] =
     (if ids = [] then Inl InvalidArgument
      else Inr [[[1, int (count_list ids 2), int (count_list ids 3), 0]]])"
| "demo_run names _ = Inl InvalidArgument"

definition demo_session :: "int session" where
  "demo_session =
     \<lparr>get_inputs = [''input''], get_outputs = [''output''],
      get_providers = [''CUDAExecutionProvider'', ''CPUExecutionProvider''],
      run = demo_run\<rparr>"

text \<open>The object as the framework creates it, and after \<^verbatim>\<open>__init__\<close>.\<close>

definition demo_self :: "int service" where
  "demo_self =
     \<lparr>news_label = Map.empty,
      artifacts = \<lparr>model = demo_session, tokenizer = demo_tokenizer, vocab = demo_vocab\<rparr>\<rparr>"

definition demo_service :: "int service" where
  "demo_service = OnnxService_init demo_self"

text \<open>
  Two tensors of two elements: one of \<^verbatim>\<open>bfloat16\<close> on the CPU that does not require
  gradients, and one of \<^verbatim>\<open>float32\<close> on the first CUDA device that requires them.
\<close>

definition bfloat16_tensor :: "rat list tensor" where
  "bfloat16_tensor =
     \<lparr>tdata = [1, 2], tdtype = BFloat16, tlayout = Strided, requires_grad = False,
      tdevice = CPU\<rparr>"

definition cuda_grad_tensor :: "rat list tensor" where
  "cuda_grad_tensor =
     \<lparr>tdata = [1 / 2, 3], tdtype = Float32, tlayout = Strided, requires_grad = True,
      tdevice = CUDA 0\<rparr>"

section \<open>Properties\<close>

subsection \<open>Helper lemmas\<close>

text \<open>What \<^verbatim>\<open>to_numpy\<close> returns on every tensor.\<close>

lemma to_numpy_cases:
  "to_numpy t =
     (if tlayout t = Strided \<and> has_numpy_dtype (tdtype t) then Inr (tdata t)
      else Inl TypeError)"
  by (simp add: to_numpy_def numpy_def clone_def cpu_def detach_def)

text \<open>Why \<^verbatim>\<open>to_numpy\<close> branches: the plain branch fails on a tensor that requires gradients.\<close>

lemma numpy_requires_grad:
  "requires_grad t \<Longrightarrow> tlayout t = Strided \<Longrightarrow> numpy (clone (cpu t)) = Inl RuntimeError"
  by (simp add: numpy_def clone_def cpu_def)

text \<open>The tensor that \<^verbatim>\<open>classify_categories\<close> builds always has an array.\<close>

lemma to_numpy_Inr: "to_numpy (to_device (torch_tensor ids) dev) = Inr ids"
  by (simp add: to_numpy_cases torch_tensor_def to_device_def)

lemma artifacts_init: "artifacts (OnnxService_init self) = artifacts self"
  by (simp add: OnnxService_init_def)

lemma news_label_init_dom:
  "dom (news_label (OnnxService_init self)) = {Some 1, Some 2, Some 3, Some 4}"
  by (auto simp: OnnxService_init_def split: if_splits)

lemma classify_categories_self: "fst (classify_categories cuda self x) = self"
  by (simp add: classify_categories_def get_pipeline_def Let_def split: sum.splits)

lemma predict_self: "fst (predict cuda self j) = self"
proof (cases "py_get j ''text''")
  case (Inl e)
  then show ?thesis by (simp add: predict_def)
next
  case (Inr x)
  obtain a out r where c: "classify_categories cuda self x = (a, out, r)"
    by (cases "classify_categories cuda self x") auto
  then show ?thesis using Inr classify_categories_self [of cuda self x]
    by (simp add: predict_def split: sum.splits)
qed

text \<open>The availability of CUDA changes nothing: the array is made on the CPU.\<close>

lemma device_independent:
  "classify_categories cuda1 self x = classify_categories cuda2 self x"
  by (simp add: classify_categories_def get_pipeline_def to_numpy_Inr split: sum.splits)

text \<open>\<^verbatim>\<open>argmax\<close> returns a position of the list, the first one that holds its maximum.\<close>

lemma argmax_from_spec:
  "bi < length ys \<Longrightarrow> ys ! bi = best \<Longrightarrow> (\<forall>y\<in>set ys. y \<le> best) \<Longrightarrow> (\<forall>j<bi. ys ! j < best) \<Longrightarrow>
   argmax_from best bi (length ys) xs < length (ys @ xs) \<and>
   (\<forall>y\<in>set (ys @ xs). y \<le> (ys @ xs) ! argmax_from best bi (length ys) xs) \<and>
   (\<forall>j<argmax_from best bi (length ys) xs. (ys @ xs) ! j < (ys @ xs) ! argmax_from best bi (length ys) xs)"
proof (induction xs arbitrary: ys best bi)
  case Nil
  then show ?case by simp
next
  case (Cons x xs)
  show ?case
  proof (cases "best < x")
    case True
    have a: "length ys < length (ys @ [x])" by simp
    have b: "(ys @ [x]) ! length ys = x" by simp
    have c: "\<forall>y\<in>set (ys @ [x]). y \<le> x" using Cons.prems(3) True by auto
    have d: "\<forall>j<length ys. (ys @ [x]) ! j < x"
    proof (intro allI impI)
      fix j assume j: "j < length ys"
      then have "ys ! j \<le> best" using Cons.prems(3) by simp
      then show "(ys @ [x]) ! j < x" using True j by (simp add: nth_append)
    qed
    from Cons.IH [OF a b c d] True show ?thesis by simp
  next
    case False
    have a: "bi < length (ys @ [x])" using Cons.prems(1) by simp
    have b: "(ys @ [x]) ! bi = best" using Cons.prems(1,2) by (simp add: nth_append)
    have c: "\<forall>y\<in>set (ys @ [x]). y \<le> best" using Cons.prems(3) False by auto
    have d: "\<forall>j<bi. (ys @ [x]) ! j < best" using Cons.prems(1,4) by (simp add: nth_append)
    from Cons.IH [OF a b c d] False show ?thesis by simp
  qed
qed

lemma argmax_spec:
  assumes "xs \<noteq> []"
  shows "argmax xs < length xs"
    and "\<forall>y\<in>set xs. y \<le> xs ! argmax xs"
    and "\<forall>j<argmax xs. xs ! j < xs ! argmax xs"
proof -
  obtain x xs' where xs: "xs = x # xs'" using assms by (cases xs) auto
  have "argmax_from x 0 (length [x]) xs' < length ([x] @ xs') \<and>
   (\<forall>y\<in>set ([x] @ xs'). y \<le> ([x] @ xs') ! argmax_from x 0 (length [x]) xs') \<and>
   (\<forall>j<argmax_from x 0 (length [x]) xs'. ([x] @ xs') ! j < ([x] @ xs') ! argmax_from x 0 (length [x]) xs')"
    by (rule argmax_from_spec) simp_all
  then show "argmax xs < length xs"
    and "\<forall>y\<in>set xs. y \<le> xs ! argmax xs"
    and "\<forall>j<argmax xs. xs ! j < xs ! argmax xs"
    using xs by simp_all
qed

lemma argmax_Max: "xs \<noteq> [] \<Longrightarrow> xs ! argmax xs = Max (set xs)"
  using argmax_spec(1,2) [of xs] by (intro Max_eqI [symmetric]) auto

text \<open>
  \<^verbatim>\<open>classify_categories\<close> on a string, for a session with an input and an output: the
  session runs on the vocabulary indices of the tokens.
\<close>

lemma classify_categories_str:
  assumes "get_inputs (model (artifacts self)) = tn # ins"
    and "get_outputs (model (artifacts self)) = on # ons"
  shows "classify_categories cuda self (PStr s) =
     (case try_body (model (artifacts self)) on
             [(tn, map (vocab (artifacts self)) (tokenizer (artifacts self) s))] of
        Inr k \<Rightarrow>
          (self, [SetupPipeline, Providers (get_providers (model (artifacts self)))],
           Inr (Some k))
      | Inl e \<Rightarrow>
          if caught e
          then (self,
                [SetupPipeline, Providers (get_providers (model (artifacts self))),
                 ErrorWithShape [length (tokenizer (artifacts self) s)] e],
                Inr None)
          else (self, [SetupPipeline, Providers (get_providers (model (artifacts self)))],
                Inl e))"
  using assms
  by (simp add: classify_categories_def get_pipeline_def text_pipeline_def to_numpy_Inr
      shape_def split: sum.splits)

lemma try_body_run_error:
  "run sess [on] feed = Inl e \<Longrightarrow> try_body sess on feed = Inl e"
  by (simp add: try_body_def)

lemma try_body_not_caught:
  "run sess [on] feed = Inr outs \<Longrightarrow> try_body sess on feed = Inl e \<Longrightarrow> \<not> caught e"
  by (auto simp: try_body_def caught_def argmax1_def split: sum.splits if_splits
      elim: first.elims item.elims)

lemma try_body_one_row:
  "run sess [on] feed = Inr ([row] # rest) \<Longrightarrow> row \<noteq> [] \<Longrightarrow>
   try_body sess on feed = Inr (int (argmax row) + 1)"
  by (simp add: try_body_def argmax1_def)

lemma news_label_init_simps:
  "news_label (OnnxService_init self) (Some 1) = Some ''World''"
  "news_label (OnnxService_init self) (Some 2) = Some ''Sports''"
  "news_label (OnnxService_init self) (Some 3) = Some ''Business''"
  "news_label (OnnxService_init self) (Some 4) = Some ''Sci/Tec''"
  "news_label (OnnxService_init self) None = None"
  by (simp_all add: OnnxService_init_def)

lemma label_key_in_dom:
  assumes "row \<noteq> []" and "length row \<le> 4"
  shows "Some (int (argmax row) + 1) \<in> dom (news_label (OnnxService_init self))"
proof -
  have "argmax row < 4" using argmax_spec(1) [OF assms(1)] assms(2) by simp
  then have "argmax row = 0 \<or> argmax row = 1 \<or> argmax row = 2 \<or> argmax row = 3" by arith
  then show ?thesis unfolding news_label_init_dom by auto
qed

lemmas demo_defs = demo_service_def demo_self_def demo_session_def demo_tokenizer_def
  demo_vocab_def artifacts_init

subsection \<open>The helper functions\<close>

text \<open>
  C4: for every input string \<open>s\<close>, the text pipeline that \<^verbatim>\<open>get_pipeline\<close> builds returns
  the list of the vocabulary indices of the tokens of \<open>s\<close>, in the order of the tokens,
  and this list is as long as the list of tokens.
\<close>

theorem text_pipeline_maps_tokens:
  "fst (snd (get_pipeline tok voc)) (PStr s) = Inr (map voc (tok s)) \<and>
   length (map voc (tok s)) = length (tok s)"
  by (simp add: get_pipeline_def text_pipeline_def)

text \<open>
  C5, as stated, fails: \<^verbatim>\<open>to_numpy\<close> raises \<^verbatim>\<open>TypeError\<close> on a tensor of
  \<^verbatim>\<open>bfloat16\<close> that lives on the CPU and does not require gradients, since numpy has no
  such element type.
\<close>

theorem to_numpy_bfloat16_counterexample:
  "to_numpy bfloat16_tensor = Inl TypeError"
  by (simp add: to_numpy_def numpy_def clone_def cpu_def bfloat16_tensor_def)

text \<open>
  C5, amended: for every strided tensor \<open>t\<close> of an element type that numpy has, whatever
  its device and whether or not it requires gradients, \<^verbatim>\<open>to_numpy\<close> returns an array
  with exactly the data of \<open>t\<close>; the detaching branch gives these data, and so does
  \<^verbatim>\<open>to_numpy\<close> on the detached tensor, which takes the plain branch.
\<close>

theorem to_numpy_values:
  assumes "tlayout t = Strided"
    and "has_numpy_dtype (tdtype t)"
  shows "to_numpy t = Inr (tdata t) \<and>
    numpy (clone (cpu (detach t))) = Inr (tdata t) \<and>
    \<not> requires_grad (detach t) \<and>
    to_numpy (detach t) = Inr (tdata t)"
  using assms by (simp add: to_numpy_def numpy_def clone_def cpu_def detach_def)

theorem to_numpy_values_witness:
  "requires_grad cuda_grad_tensor \<and> tdevice cuda_grad_tensor = CUDA 0 \<and>
   to_numpy cuda_grad_tensor = Inr [1 / 2, 3] \<and>
   to_numpy (detach cuda_grad_tensor) = Inr [1 / 2, 3]"
  using to_numpy_values [of cuda_grad_tensor] by (simp add: cuda_grad_tensor_def)

subsection \<open>The order of the notebook\<close>

text \<open>
  C6: run from top to bottom, the notebook builds the tokenizer and the vocabulary, then
  instantiates the classifier and loads its weights, then exports it, then checks the
  exported file, then packs the three artifacts and saves the service, and only then
  serves, containerizes and runs the container; no call occurs twice, and the recorded
  execution counts of the cells are 1 to 12 in document order.
\<close>

theorem notebook_order:
  "chain [GetTokenizerVocab, InstantiateModel, LoadStateDict, OnnxExport, CheckModel,
          Pack ''model'', Pack ''tokenizer'', Pack ''vocab'', Save,
          BentomlServe ''OnnxService:latest'', BentomlContainerize, DockerRun] script \<and>
   distinct script \<and>
   map fst (filter (\<lambda>c. fst c \<noteq> None) notebook) =
     map Some [1, 2, 3, 4, 5, 6, 7, 8, 9, 10, 11, 12]"
  by (simp add: script_def notebook_def)

subsection \<open>The label table\<close>

text \<open>
  C7: after \<^verbatim>\<open>__init__\<close> the label table maps 1 to World, 2 to Sports, 3 to Business and
  4 to Sci/Tec, its keys are exactly 1, 2, 3 and 4, and neither \<^verbatim>\<open>classify_categories\<close>
  nor \<^verbatim>\<open>predict\<close> changes the table of the service it is called on.
\<close>

theorem news_label_fixed:
  "news_label (OnnxService_init self0) (Some 1) = Some ''World'' \<and>
   news_label (OnnxService_init self0) (Some 2) = Some ''Sports'' \<and>
   news_label (OnnxService_init self0) (Some 3) = Some ''Business'' \<and>
   news_label (OnnxService_init self0) (Some 4) = Some ''Sci/Tec'' \<and>
   dom (news_label (OnnxService_init self0)) = {Some 1, Some 2, Some 3, Some 4} \<and>
   news_label (fst (classify_categories cuda self x)) = news_label self \<and>
   news_label (fst (predict cuda self j)) = news_label self"
  by (simp add: news_label_init_dom classify_categories_self predict_self)
     (simp add: OnnxService_init_def)

subsection \<open>Classification\<close>

text \<open>
  C2: for every input sentence \<open>s\<close>, \<^verbatim>\<open>classify_categories\<close> runs the session on the
  array of the vocabulary indices of the tokens of \<open>s\<close>, asking for the first output; when
  the run succeeds with one row of scores, it returns the index of the first greatest
  score plus one, and with at most four scores in the row (the packed model has four
  classes) this number is a key of the label table.
\<close>

theorem classify_categories_steps:
  assumes "get_inputs (model (artifacts self)) = tn # ins"
    and "get_outputs (model (artifacts self)) = on # ons"
    and "tokens = tokenizer (artifacts self) s"
    and "ids = map (vocab (artifacts self)) tokens"
    and "run (model (artifacts self)) [on] [(tn, ids)] = Inr ([row] # rest)"
    and "row \<noteq> []"
    and "length row \<le> 4"
  shows "snd (snd (classify_categories cuda (OnnxService_init self) (PStr s))) =
           Inr (Some (int (argmax row) + 1)) \<and>
         argmax row < length row \<and>
         row ! argmax row = Max (set row) \<and>
         Some (int (argmax row) + 1) \<in> dom (news_label (OnnxService_init self))"
proof -
  have "classify_categories cuda (OnnxService_init self) (PStr s) =
        (OnnxService_init self,
         [SetupPipeline, Providers (get_providers (model (artifacts self)))],
         Inr (Some (int (argmax row) + 1)))"
    using classify_categories_str [of "OnnxService_init self" tn ins on ons cuda s]
      try_body_one_row [OF assms(5,6)] assms(1-4)
    by (simp add: artifacts_init)
  then show ?thesis
    using argmax_spec(1) [OF assms(6)] argmax_Max [OF assms(6)]
      label_key_in_dom [OF assms(6,7)]
    by simp
qed

theorem classify_categories_steps_witness:
  "snd (snd (classify_categories True demo_service (PStr ''stocks fall as stocks do''))) =
     Inr (Some 3)"
  using classify_categories_steps [of demo_self "''input''" "[]" "''output''" "[]"
      "[''stocks'', ''fall'', ''as'', ''stocks'', ''do'']" "''stocks fall as stocks do''"
      "[3, 0, 0, 3, 0]" "[1, 0, 2, 0]" "[]" True]
  by (simp add: demo_defs)

text \<open>
  C3: \<^verbatim>\<open>classify_categories\<close> returns \<^verbatim>\<open>None\<close> if and only if the run of the session
  raises \<^verbatim>\<open>RuntimeError\<close> or \<^verbatim>\<open>InvalidArgument\<close>; it then prints the shape of the input
  array after the two usual lines. Any other exception of the run leaves the method as it
  is, and a run that returns prints no error line and does not end in \<^verbatim>\<open>None\<close>.
\<close>

theorem classify_categories_catch:
  assumes "get_inputs (model (artifacts self)) = tn # ins"
    and "get_outputs (model (artifacts self)) = on # ons"
    and "ids = map (vocab (artifacts self)) (tokenizer (artifacts self) s)"
    and "out = [SetupPipeline, Providers (get_providers (model (artifacts self)))]"
  shows
    "(snd (snd (classify_categories cuda self (PStr s))) = Inr None) =
       (\<exists>e. run (model (artifacts self)) [on] [(tn, ids)] = Inl e \<and>
            (e = RuntimeError \<or> e = InvalidArgument)) \<and>
     (\<forall>e. run (model (artifacts self)) [on] [(tn, ids)] = Inl e \<longrightarrow>
        classify_categories cuda self (PStr s) =
          (if e = RuntimeError \<or> e = InvalidArgument
           then (self, out @ [ErrorWithShape [length ids] e], Inr None)
           else (self, out, Inl e))) \<and>
     (\<forall>outs. run (model (artifacts self)) [on] [(tn, ids)] = Inr outs \<longrightarrow>
        fst (snd (classify_categories cuda self (PStr s))) = out \<and>
        snd (snd (classify_categories cuda self (PStr s))) \<noteq> Inr None)"
proof -
  let ?sess = "model (artifacts self)"
  note c = classify_categories_str [OF assms(1,2), of cuda s, folded assms(3)]
  have err: "classify_categories cuda self (PStr s) =
          (if e = RuntimeError \<or> e = InvalidArgument
           then (self, out @ [ErrorWithShape [length ids] e], Inr None)
           else (self, out, Inl e))"
    if "run ?sess [on] [(tn, ids)] = Inl e" for e
    using try_body_run_error [OF that] by (simp add: c assms(3,4) caught_def)
  have ok: "fst (snd (classify_categories cuda self (PStr s))) = out \<and>
        snd (snd (classify_categories cuda self (PStr s))) \<noteq> Inr None"
    if "run ?sess [on] [(tn, ids)] = Inr outs" for outs
    using try_body_not_caught [OF that] by (simp add: c assms(4) split: sum.splits)
  have iff: "(snd (snd (classify_categories cuda self (PStr s))) = Inr None) =
       (\<exists>e. run ?sess [on] [(tn, ids)] = Inl e \<and> (e = RuntimeError \<or> e = InvalidArgument))"
  proof (cases "run ?sess [on] [(tn, ids)]")
    case (Inl e)
    then show ?thesis using err [OF Inl] by auto
  next
    case (Inr outs)
    then show ?thesis using ok [OF Inr] by simp
  qed
  from iff err ok show ?thesis by blast
qed

theorem classify_categories_catch_witness:
  "classify_categories True demo_service (PStr '''') =
     (demo_service,
      [SetupPipeline, Providers [''CUDAExecutionProvider'', ''CPUExecutionProvider''],
       ErrorWithShape [0] InvalidArgument],
      Inr None)"
  using classify_categories_catch [of demo_service "''input''" "[]" "''output''" "[]" "[]" "''''"
      "[SetupPipeline, Providers [''CUDAExecutionProvider'', ''CPUExecutionProvider'']]" True]
  by (simp add: demo_defs)

subsection \<open>The API\<close>

text \<open>
  C1, as stated, fails: on the text \<^verbatim>\<open>""\<close> the tokenizer gives no token, the session
  rejects the empty array, \<^verbatim>\<open>classify_categories\<close> returns \<^verbatim>\<open>None\<close>, and \<^verbatim>\<open>predict\<close>
  raises \<^verbatim>\<open>KeyError\<close> instead of returning a JSON object.
\<close>

theorem predict_empty_text_counterexample:
  "py_get (PDict [(''text'', PStr '''')]) ''text'' = Inr (PStr '''') \<and>
   snd (snd (predict True demo_service (PDict [(''text'', PStr '''')]))) = Inl KeyError"
  by (simp add: predict_def classify_categories_def get_pipeline_def text_pipeline_def
      to_numpy_Inr try_body_def caught_def getitem_def
      demo_service_def demo_self_def demo_session_def demo_tokenizer_def
      OnnxService_init_def shape_def)

text \<open>
  C1, amended: for every request whose parsed body binds \<^verbatim>\<open>text\<close> to a string \<open>s\<close>, when
  the run of the session on the indices of \<open>s\<close> succeeds with one row of one to four
  scores, \<^verbatim>\<open>predict\<close> returns the JSON object with the single key \<^verbatim>\<open>categories\<close> bound
  to one of World, Sports, Business and Sci/Tec.
\<close>

theorem predict_returns_category:
  assumes "py_get parsed_json ''text'' = Inr (PStr s)"
    and "get_inputs (model (artifacts self)) = tn # ins"
    and "get_outputs (model (artifacts self)) = on # ons"
    and "run (model (artifacts self)) [on]
           [(tn, map (vocab (artifacts self)) (tokenizer (artifacts self) s))] =
         Inr ([row] # rest)"
    and "row \<noteq> []"
    and "length row \<le> 4"
  shows "\<exists>c\<in>{''World'', ''Sports'', ''Business'', ''Sci/Tec''}.
           snd (snd (predict cuda (OnnxService_init self) parsed_json)) =
             Inr (PDict [(''categories'', PStr c)])"
proof -
  have c: "classify_categories cuda (OnnxService_init self) (PStr s) =
        (OnnxService_init self,
         [SetupPipeline, Providers (get_providers (model (artifacts self)))],
         Inr (Some (int (argmax row) + 1)))"
    using classify_categories_str [of "OnnxService_init self" tn ins on ons cuda s]
      try_body_one_row [OF assms(4,5)] assms(2,3)
    by (simp add: artifacts_init)
  have p: "snd (snd (predict cuda (OnnxService_init self) parsed_json)) =
        (case news_label (OnnxService_init self) (Some (int (argmax row) + 1)) of
           None \<Rightarrow> Inl KeyError
         | Some l \<Rightarrow> Inr (PDict [(''categories'', PStr l)]))"
    using assms(1) by (simp add: c predict_def getitem_def split: option.splits)
  have "argmax row < 4" using argmax_spec(1) [OF assms(5)] assms(6) by simp
  then have "argmax row = 0 \<or> argmax row = 1 \<or> argmax row = 2 \<or> argmax row = 3" by arith
  then show ?thesis unfolding p by (auto simp: news_label_init_simps)
qed

theorem predict_returns_category_witness:
  "\<exists>c\<in>{''World'', ''Sports'', ''Business'', ''Sci/Tec''}.
     snd (snd (predict True demo_service (PDict [(''text'', PStr ''late goal wins cup'')]))) =
       Inr (PDict [(''categories'', PStr c)])"
  using predict_returns_category [of "PDict [(''text'', PStr ''late goal wins cup'')]" "''late goal wins cup''"
      demo_self "''input''" "[]" "''output''" "[]" "[1, 1, 0, 0]" "[]" True]
  by (simp add: demo_defs)

text \<open>Whatever the request and the session, a result of \<^verbatim>\<open>predict\<close> has this shape.\<close>

lemma predict_result_shape:
  assumes "snd (snd (predict cuda (OnnxService_init self) parsed_json)) = Inr v"
  shows "\<exists>c\<in>{''World'', ''Sports'', ''Business'', ''Sci/Tec''}.
           v = PDict [(''categories'', PStr c)]"
proof -
  obtain x where x: "py_get parsed_json ''text'' = Inr x"
    using assms by (cases "py_get parsed_json ''text''") (auto simp: predict_def)
  obtain a out r where c: "classify_categories cuda (OnnxService_init self) x = (a, out, r)"
    by (cases "classify_categories cuda (OnnxService_init self) x") auto
  have a: "a = OnnxService_init self"
    using classify_categories_self [of cuda "OnnxService_init self" x] c by simp
  from assms x c a obtain k l where "r = Inr k"
    and l: "news_label (OnnxService_init self) k = Some l" and v: "v = PDict [(''categories'', PStr l)]"
    by (auto simp: predict_def getitem_def split: sum.splits option.splits)
  from l have "l \<in> {''World'', ''Sports'', ''Business'', ''Sci/Tec''}"
    by (auto simp: OnnxService_init_def split: if_splits)
  with v show ?thesis by blast
qed

text \<open>
  C8: when the run of the session raises an exception that \<^verbatim>\<open>classify_categories\<close>
  catches, the method returns \<^verbatim>\<open>None\<close>, which is no key of the label table, and
  \<^verbatim>\<open>predict\<close> raises \<^verbatim>\<open>KeyError\<close> instead of returning a JSON object.
\<close>

theorem predict_keyerror_on_caught_error:
  assumes "py_get parsed_json ''text'' = Inr (PStr s)"
    and "get_inputs (model (artifacts self)) = tn # ins"
    and "get_outputs (model (artifacts self)) = on # ons"
    and "run (model (artifacts self)) [on]
           [(tn, map (vocab (artifacts self)) (tokenizer (artifacts self) s))] = Inl e"
    and "e = RuntimeError \<or> e = InvalidArgument"
  shows "snd (snd (classify_categories cuda (OnnxService_init self) (PStr s))) = Inr None \<and>
         news_label (OnnxService_init self) None = None \<and>
         snd (snd (predict cuda (OnnxService_init self) parsed_json)) = Inl KeyError"
proof -
  have c: "classify_categories cuda (OnnxService_init self) (PStr s) =
        (OnnxService_init self,
         [SetupPipeline, Providers (get_providers (model (artifacts self))),
          ErrorWithShape [length (tokenizer (artifacts self) s)] e],
         Inr None)"
    using classify_categories_str [of "OnnxService_init self" tn ins on ons cuda s]
      try_body_run_error [OF assms(4)] assms(2,3,5)
    by (auto simp: artifacts_init caught_def)
  have n: "news_label (OnnxService_init self) None = None"
    by (rule news_label_init_simps)
  show ?thesis using assms(1) by (simp add: c n predict_def getitem_def)
qed

theorem predict_keyerror_on_caught_error_witness:
  "snd (snd (predict False demo_service (PDict [(''text'', PStr ''  '')]))) = Inl KeyError"
  using predict_keyerror_on_caught_error [of "PDict [(''text'', PStr ''  '')]" "''  ''" demo_self "''input''" "[]"
      "''output''" "[]" InvalidArgument False]
  by (simp add: demo_defs)

subsection \<open>Requests without a text\<close>

text \<open>
  C9: when the parsed body is a dictionary without the key \<^verbatim>\<open>text\<close>, \<^verbatim>\<open>predict\<close> reads
  \<^verbatim>\<open>None\<close>, the tokenizer is applied to \<^verbatim>\<open>None\<close> and raises, and \<^verbatim>\<open>predict\<close> raises
  this exception instead of returning a category.
\<close>

theorem predict_without_text:
  assumes "map_of kvs ''text'' = None"
  shows "py_get (PDict kvs) ''text'' = Inr PNone \<and>
    call_tokenizer (tokenizer (artifacts self)) PNone = Inl AttributeError \<and>
    predict cuda self (PDict kvs) = (self, [SetupPipeline], Inl AttributeError)"
  using assms
  by (simp add: predict_def classify_categories_def get_pipeline_def text_pipeline_def)

theorem predict_without_text_witness:
  "predict False demo_service (PDict [(''title'', PStr ''cup final'')]) =
     (demo_service, [SetupPipeline], Inl AttributeError)"
  using predict_without_text [of "[(''title'', PStr ''cup final'')]" demo_service False]
  by simp

end
